theory Spec2Isabelle
  imports Main
begin

section \<open>The streaming client of the agent platform front end\<close>

text \<open>
  This theory embeds \<^verbatim>\<open>frontend/src/hooks/useWebSocket.tsx\<close>: the provider that owns
  the front end's WebSocket, its four event handlers, and the three operations it gives
  to its consumers (\<^verbatim>\<open>connect\<close>, \<^verbatim>\<open>disconnect\<close>, \<^verbatim>\<open>sendMessage\<close>). The provider's
  React state and refs, the WebSocket objects it has constructed and the timers it has
  set are one record that every operation takes and returns.
\<close>

subsection \<open>JSON values, frames and outbound messages\<close>

text \<open>
  The value \<^verbatim>\<open>JSON.parse\<close> returns is not validated by the source: the annotation
  \<^verbatim>\<open>WebSocketMessage\<close> on the parsed value is erased at run time, so the buffer holds
  whatever JSON value the frame denoted. Numbers are kept as integers: nothing below
  looks inside a number.
\<close>

datatype json =
    JNull
  | JBool bool
  | JNumber int
  | JString string
  | JArray "json list"
  | JObject "(string \<times> json) list"

text \<open>
  The handlers read \<^verbatim>\<open>event.data\<close> through \<^verbatim>\<open>JSON.parse\<close> only, so a frame is
  represented by what the parser makes of its text: \<open>Invalid s\<close> is a text \<open>s\<close> that
  is not JSON (the parser throws), \<open>Valid v\<close> is the text of the JSON value \<open>v\<close>.
\<close>

datatype event_data = Invalid string | Valid json

fun JSON_parse :: "event_data \<Rightarrow> json option" where
  "JSON_parse (Invalid s) = None"
| "JSON_parse (Valid v) = Some v"

text \<open>The interface \<^verbatim>\<open>WebSocketMessage\<close>; its \<^verbatim>\<open>data\<close> is taken to be a JSON value.\<close>

record WebSocketMessage =
  msg_type :: string
  msg_data :: json
  msg_timestamp :: string

definition JSON_stringify :: "WebSocketMessage \<Rightarrow> event_data" where
  "JSON_stringify m =
     Valid (JObject [(''type'', JString (msg_type m)),
                     (''data'', msg_data m),
                     (''timestamp'', JString (msg_timestamp m))])"

text \<open>Reading a property of a decoded value, as \<^verbatim>\<open>message.sequence\<close> would.\<close>

fun property :: "string \<Rightarrow> json \<Rightarrow> json option" where
  "property k (JObject kvs) = map_of kvs k"
| "property k v = None"

subsection \<open>The browser objects the provider uses\<close>

datatype ready_state = CONNECTING | OPEN | CLOSING | CLOSED

text \<open>
  A WebSocket object: its URL, its ready state, the \<^verbatim>\<open>agentId\<close> that the handlers
  registered on it have captured (the \<^verbatim>\<open>onclose\<close> handler passes it to the reconnect),
  and the frames handed to its \<^verbatim>\<open>send\<close>.
\<close>

record WebSocket =
  url :: string
  readyState :: ready_state
  handler_agentId :: "string option"
  sent :: "event_data list"

text \<open>
  A timer made by \<^verbatim>\<open>setTimeout\<close>: the argument of the \<^verbatim>\<open>connect\<close> call in its
  callback, and whether it can still fire (it has neither fired nor been cleared).
\<close>

record timer =
  callback_agentId :: "string option"
  pending :: bool

datatype console_entry = Log string | Warn string | Error string

text \<open>
  The provider and its environment. \<open>isConnected\<close> and \<open>messages\<close> are the React
  state, \<open>wsRef\<close> and \<open>reconnectTimeoutRef\<close> the two refs; a WebSocket is referred to
  by its position in \<open>sockets\<close> (every WebSocket constructed so far) and a timer by its
  position in \<open>timers\<close>. A timer handle is truthy in the browser (handles are positive
  integers), so the source's test \<^verbatim>\<open>if (reconnectTimeoutRef.current)\<close> is the test for
  \<open>Some\<close>. \<open>REACT_APP_WS_URL\<close> is the environment variable read by \<^verbatim>\<open>connect\<close>, and
  \<open>access_token\<close> the entry of \<^verbatim>\<open>localStorage\<close> in which \<^verbatim>\<open>useAuth.tsx\<close> keeps the
  bearer credential.
\<close>

record provider =
  isConnected :: bool
  messages :: "json list"
  wsRef :: "nat option"
  reconnectTimeoutRef :: "nat option"
  sockets :: "WebSocket list"
  timers :: "timer list"
  console :: "console_entry list"
  REACT_APP_WS_URL :: "string option"
  access_token :: "string option"

definition initial :: "string option \<Rightarrow> string option \<Rightarrow> provider" where
  "initial env token =
     \<lparr>isConnected = False, messages = [], wsRef = None, reconnectTimeoutRef = None,
      sockets = [], timers = [], console = [],
      REACT_APP_WS_URL = env, access_token = token\<rparr>"

definition console_add :: "console_entry \<Rightarrow> provider \<Rightarrow> provider" where
  "console_add e w = w\<lparr>console := console w @ [e]\<rparr>"

definition clearTimeout :: "nat \<Rightarrow> provider \<Rightarrow> provider" where
  "clearTimeout t w =
     (if t < length (timers w)
      then w\<lparr>timers := (timers w)[t := (timers w ! t)\<lparr>pending := False\<rparr>]\<rparr>
      else w)"

text \<open>\<^verbatim>\<open>setTimeout(() => connect(agentId), 5000)\<close>: the handle and the new state.\<close>

definition setTimeout :: "string option \<Rightarrow> provider \<Rightarrow> nat \<times> provider" where
  "setTimeout agentId w =
     (length (timers w),
      w\<lparr>timers := timers w @ [\<lparr>callback_agentId = agentId, pending = True\<rparr>]\<rparr>)"

text \<open>
  \<^verbatim>\<open>ws.close()\<close>: a socket that is connecting or open starts closing; on a socket that
  is closing or closed the call does nothing. The close event comes later.
\<close>

definition WebSocket_close :: "nat \<Rightarrow> provider \<Rightarrow> provider" where
  "WebSocket_close i w =
     (if i < length (sockets w) \<and> readyState (sockets w ! i) \<in> {CONNECTING, OPEN}
      then w\<lparr>sockets := (sockets w)[i := (sockets w ! i)\<lparr>readyState := CLOSING\<rparr>]\<rparr>
      else w)"

definition WebSocket_send :: "nat \<Rightarrow> event_data \<Rightarrow> provider \<Rightarrow> provider" where
  "WebSocket_send i d w =
     w\<lparr>sockets := (sockets w)[i := (sockets w ! i)\<lparr>sent := sent (sockets w ! i) @ [d]\<rparr>]\<rparr>"

subsection \<open>connect\<close>

text \<open>
  Both tests of \<^verbatim>\<open>connect\<close> on an optional string are tests of JavaScript truthiness:
  \<^verbatim>\<open>undefined\<close> and the empty string are falsy, every other string is truthy.

  \<^verbatim>\<open>process.env.REACT_APP_WS_URL || 'ws://localhost:5000'\<close>
\<close>

definition base_address :: "string option \<Rightarrow> string" where
  "base_address env =
     (case env of
        Some u \<Rightarrow> if u \<noteq> [] then u else ''ws://localhost:5000''
      | None \<Rightarrow> ''ws://localhost:5000'')"

definition wsUrl :: "string option \<Rightarrow> string option \<Rightarrow> string" where
  "wsUrl env agentId =
     (case agentId of
        Some a \<Rightarrow>
          if a \<noteq> [] then base_address env @ ''/api/agents/'' @ a @ ''/ws''
          else base_address env @ ''/api/ws''
      | None \<Rightarrow> base_address env @ ''/api/ws'')"

text \<open>\<^verbatim>\<open>wsRef.current?.readyState === WebSocket.OPEN\<close>\<close>

definition current_open :: "provider \<Rightarrow> bool" where
  "current_open w =
     (case wsRef w of
        None \<Rightarrow> False
      | Some i \<Rightarrow> i < length (sockets w) \<and> readyState (sockets w ! i) = OPEN)"

definition connect :: "string option \<Rightarrow> provider \<Rightarrow> provider" where
  "connect agentId w =
     (if current_open w then w
      else
        let ws = \<lparr>url = wsUrl (REACT_APP_WS_URL w) agentId, readyState = CONNECTING,
                  handler_agentId = agentId, sent = []\<rparr>
        in w\<lparr>sockets := sockets w @ [ws], wsRef := Some (length (sockets w))\<rparr>)"

text \<open>
  \<^verbatim>\<open>new WebSocket(wsUrl)\<close> does not accept every string: the constructor throws a
  \<^verbatim>\<open>SyntaxError\<close> when the string does not parse as a URL or has a fragment, for
  example for the agent identifier \<^verbatim>\<open>a#b\<close>. The source does not catch it, so the call
  of \<^verbatim>\<open>connect\<close> throws before any handler is registered and before \<^verbatim>\<open>wsRef\<close> is
  assigned. Which strings the constructor accepts is the browser's matter and a
  parameter here (\<open>accepts\<close>). \<open>connect_result\<close> is the call as a whole: the state it
  returns, or the error it throws (and then the state is as before the call).
  \<open>connect\<close> above is the state after a call that returns.
\<close>

datatype js_error = SyntaxError

definition connect_result ::
  "(string \<Rightarrow> bool) \<Rightarrow> string option \<Rightarrow> provider \<Rightarrow> js_error + provider" where
  "connect_result accepts agentId w =
     (if current_open w then Inr w
      else
        let address = wsUrl (REACT_APP_WS_URL w) agentId
        in if accepts address
           then Inr (w\<lparr>sockets := sockets w @ [\<lparr>url = address, readyState = CONNECTING,
                                                  handler_agentId = agentId, sent = []\<rparr>],
                       wsRef := Some (length (sockets w))\<rparr>)
           else Inl SyntaxError)"

text \<open>
  A constructor that rejects the strings with a \<^verbatim>\<open>#\<close> in them, as the browser's does
  (the browser's rejects others as well), for the examples.
\<close>

definition without_fragment :: "string \<Rightarrow> bool" where
  "without_fragment u = (CHR ''#'' \<notin> set u)"

subsection \<open>The handlers registered on each socket\<close>

definition onopen :: "provider \<Rightarrow> provider" where
  "onopen w =
     (let w1 = console_add (Log ''WebSocket connected'') w;
          w2 = w1\<lparr>isConnected := True\<rparr>
      in case reconnectTimeoutRef w2 of
           Some t \<Rightarrow> (clearTimeout t w2)\<lparr>reconnectTimeoutRef := None\<rparr>
         | None \<Rightarrow> w2)"

definition onmessage :: "event_data \<Rightarrow> provider \<Rightarrow> provider" where
  "onmessage d w =
     (case JSON_parse d of
        Some message \<Rightarrow> w\<lparr>messages := messages w @ [message]\<rparr>
      | None \<Rightarrow> console_add (Error ''Failed to parse WebSocket message:'') w)"

definition onclose :: "string option \<Rightarrow> provider \<Rightarrow> provider" where
  "onclose agentId w =
     (let w1 = console_add (Log ''WebSocket disconnected:'') w;
          w2 = w1\<lparr>isConnected := False\<rparr>
      in case reconnectTimeoutRef w2 of
           None \<Rightarrow> (let (t, w3) = setTimeout agentId w2 in w3\<lparr>reconnectTimeoutRef := Some t\<rparr>)
         | Some t \<Rightarrow> w2)"

definition onerror :: "provider \<Rightarrow> provider" where
  "onerror w = (console_add (Error ''WebSocket error:'') w)\<lparr>isConnected := False\<rparr>"

subsection \<open>disconnect and sendMessage\<close>

definition disconnect :: "provider \<Rightarrow> provider" where
  "disconnect w =
     (let w1 = (case reconnectTimeoutRef w of
                  Some t \<Rightarrow> (clearTimeout t w)\<lparr>reconnectTimeoutRef := None\<rparr>
                | None \<Rightarrow> w);
          w2 = (case wsRef w1 of
                  Some i \<Rightarrow> (WebSocket_close i w1)\<lparr>wsRef := None\<rparr>
                | None \<Rightarrow> w1)
      in w2\<lparr>isConnected := False\<rparr>)"

definition sendMessage :: "WebSocketMessage \<Rightarrow> provider \<Rightarrow> provider" where
  "sendMessage message w =
     (case wsRef w of
        Some i \<Rightarrow>
          if i < length (sockets w) \<and> readyState (sockets w ! i) = OPEN
          then WebSocket_send i (JSON_stringify message) w
          else console_add (Warn ''WebSocket is not connected'') w
      | None \<Rightarrow> console_add (Warn ''WebSocket is not connected'') w)"

subsection \<open>What can happen to a provider\<close>

text \<open>
  A consumer calls one of the three operations, or the browser delivers an event:
  a connecting socket opens; an open socket receives a frame; a socket that is not yet
  closed closes, cleanly (\<open>Close\<close>: the close event alone) or not (\<open>Fail\<close>: the error
  event, then the close event); a pending timer fires. The browser sets the ready state
  before it runs the handler. An event the browser cannot produce in a state has no
  successor (\<open>None\<close>). A call of \<^verbatim>\<open>connect\<close> in a trace, by the consumer or by a
  timer, is a call that returns: the constructor has accepted its address.
\<close>

datatype event =
    Connect "string option"
  | Disconnect
  | SendMessage WebSocketMessage
  | Open nat
  | Message nat event_data
  | Close nat
  | Fail nat
  | Timeout nat

definition set_readyState :: "nat \<Rightarrow> ready_state \<Rightarrow> provider \<Rightarrow> provider" where
  "set_readyState i r w = w\<lparr>sockets := (sockets w)[i := (sockets w ! i)\<lparr>readyState := r\<rparr>]\<rparr>"

fun step :: "event \<Rightarrow> provider \<Rightarrow> provider option" where
  "step (Connect agentId) w = Some (connect agentId w)"
| "step Disconnect w = Some (disconnect w)"
| "step (SendMessage m) w = Some (sendMessage m w)"
| "step (Open i) w =
     (if i < length (sockets w) \<and> readyState (sockets w ! i) = CONNECTING
      then Some (onopen (set_readyState i OPEN w)) else None)"
| "step (Message i d) w =
     (if i < length (sockets w) \<and> readyState (sockets w ! i) = OPEN
      then Some (onmessage d w) else None)"
| "step (Close i) w =
     (if i < length (sockets w) \<and> readyState (sockets w ! i) \<noteq> CLOSED
      then Some (onclose (handler_agentId (sockets w ! i)) (set_readyState i CLOSED w))
      else None)"
| "step (Fail i) w =
     (if i < length (sockets w) \<and> readyState (sockets w ! i) \<noteq> CLOSED
      then Some (onclose (handler_agentId (sockets w ! i))
                   (onerror (set_readyState i CLOSED w)))
      else None)"
| "step (Timeout t) w =
     (if t < length (timers w) \<and> pending (timers w ! t)
      then Some (connect (callback_agentId (timers w ! t))
                   (w\<lparr>timers := (timers w)[t := (timers w ! t)\<lparr>pending := False\<rparr>]\<rparr>))
      else None)"

fun run :: "event list \<Rightarrow> provider \<Rightarrow> provider option" where
  "run [] w = Some w"
| "run (e # es) w = (case step e w of None \<Rightarrow> None | Some w' \<Rightarrow> run es w')"

text \<open>The frames of a trace and the values they decode to, in order of arrival.\<close>

fun frames :: "event list \<Rightarrow> event_data list" where
  "frames [] = []"
| "frames (Message i d # es) = d # frames es"
| "frames (e # es) = frames es"

definition decoded :: "event_data list \<Rightarrow> json list" where
  "decoded ds = List.map_filter JSON_parse ds"

definition decode_failures :: "event_data list \<Rightarrow> nat" where
  "decode_failures ds = length (filter (\<lambda>d. JSON_parse d = None) ds)"

subsection \<open>What a consumer sees, and a sample message\<close>

text \<open>
  The data of the context value the provider hands to its consumers
  (\<^verbatim>\<open>WebSocketContextType\<close>): the flag and the buffer. Its other three members are the
  operations, which never change.
\<close>

definition context_value :: "provider \<Rightarrow> bool \<times> json list" where
  "context_value w = (isConnected w, messages w)"

definition hello :: WebSocketMessage where
  "hello = \<lparr>msg_type = ''chat'', msg_data = JString ''hi'', msg_timestamp = ''t''\<rparr>"

text \<open>A provider whose socket is open and has received one frame.\<close>

definition streaming :: provider where
  "streaming =
     \<lparr>isConnected = True, messages = [JString ''a''], wsRef = Some 0,
      reconnectTimeoutRef = None,
      sockets = [\<lparr>url = ''ws://localhost:5000/api/ws'', readyState = OPEN,
                  handler_agentId = None, sent = []\<rparr>],
      timers = [], console = [Log ''WebSocket connected''],
      REACT_APP_WS_URL = None, access_token = None\<rparr>"

section \<open>Properties\<close>

subsection \<open>Auxiliary facts\<close>

lemmas provider_ops =
  initial_def connect_def current_open_def onopen_def onmessage_def onclose_def
  onerror_def disconnect_def sendMessage_def set_readyState_def console_add_def
  clearTimeout_def setTimeout_def WebSocket_close_def WebSocket_send_def wsUrl_def
  base_address_def JSON_stringify_def

lemma decoded_Nil: "decoded [] = []"
  by (simp add: decoded_def List.map_filter_def)

lemma decoded_Cons:
  "decoded (d # ds) = (case JSON_parse d of None \<Rightarrow> decoded ds | Some v \<Rightarrow> v # decoded ds)"
  by (simp add: decoded_def List.map_filter_def split: option.splits)

lemma decoded_append: "decoded (xs @ ys) = decoded xs @ decoded ys"
  by (simp add: decoded_def List.map_filter_def)

lemma length_decoded: "length (decoded ds) = length ds - decode_failures ds"
proof (induction ds)
  case Nil
  show ?case by (simp add: decoded_Nil decode_failures_def)
next
  case (Cons d ds)
  have le: "decode_failures ds \<le> length ds"
    by (simp add: decode_failures_def)
  show ?case
  proof (cases "JSON_parse d")
    case None
    with Cons show ?thesis by (simp add: decoded_Cons decode_failures_def)
  next
    case (Some v)
    with Cons le show ?thesis by (simp add: decoded_Cons decode_failures_def Suc_diff_le)
  qed
qed

lemma messages_connect: "messages (connect a w) = messages w"
  by (simp add: connect_def Let_def)

lemma messages_disconnect: "messages (disconnect w) = messages w"
  by (simp add: disconnect_def Let_def clearTimeout_def WebSocket_close_def split: option.splits)

lemma messages_sendMessage: "messages (sendMessage m w) = messages w"
  by (simp add: sendMessage_def WebSocket_send_def console_add_def split: option.splits)

lemma messages_onopen: "messages (onopen w) = messages w"
  by (simp add: onopen_def Let_def console_add_def clearTimeout_def split: option.splits)

lemma messages_onclose: "messages (onclose a w) = messages w"
  by (simp add: onclose_def Let_def console_add_def setTimeout_def split: option.splits)

lemma messages_onerror: "messages (onerror w) = messages w"
  by (simp add: onerror_def console_add_def)

lemma messages_set_readyState: "messages (set_readyState i r w) = messages w"
  by (simp add: set_readyState_def)

lemma messages_onmessage: "messages (onmessage d w) = messages w @ decoded [d]"
  by (simp add: onmessage_def console_add_def decoded_Cons decoded_Nil split: option.splits)

lemmas messages_simps =
  messages_connect messages_disconnect messages_sendMessage messages_onopen
  messages_onclose messages_onerror messages_set_readyState messages_onmessage

lemma step_messages:
  assumes "step e w = Some w'"
  shows "messages w' = messages w @ decoded (frames [e])"
  using assms
  by (cases e) (auto simp: messages_simps decoded_Nil split: if_splits)

lemma frames_Cons: "frames (e # es) = frames [e] @ frames es"
  by (cases e) simp_all

lemma run_messages:
  "run es w = Some w' \<Longrightarrow> messages w' = messages w @ decoded (frames es)"
proof (induction es arbitrary: w)
  case Nil
  then show ?case by (simp add: decoded_Nil)
next
  case (Cons e es)
  from Cons.prems obtain w1 where s: "step e w = Some w1" and r: "run es w1 = Some w'"
    by (auto split: option.splits)
  have "messages w' = messages w1 @ decoded (frames es)"
    using Cons.IH [OF r] .
  also have "messages w1 = messages w @ decoded (frames [e])"
    using step_messages [OF s] .
  finally show ?case
    by (simp add: frames_Cons [of e es] decoded_append)
qed

text \<open>Frames delivered one after the other on an open socket.\<close>

lemma run_frames_open:
  assumes "i < length (sockets w)" and "readyState (sockets w ! i) = OPEN"
  shows "map_option messages (run (map (Message i) ds) w) = Some (messages w @ decoded ds)"
  using assms
proof (induction ds arbitrary: w)
  case Nil
  show ?case by (simp add: decoded_Nil)
next
  case (Cons d ds)
  have s: "sockets (onmessage d w) = sockets w"
    by (simp add: onmessage_def console_add_def split: option.splits)
  have "map_option messages (run (map (Message i) ds) (onmessage d w))
        = Some (messages (onmessage d w) @ decoded ds)"
    using Cons.prems by (intro Cons.IH) (simp_all add: s)
  then show ?case
    using Cons.prems
    by (simp add: messages_onmessage decoded_Cons decoded_Nil split: option.splits)
qed

lemma decoded_replicate: "decoded (replicate n (Valid v)) = replicate n v"
  by (induction n) (simp_all add: decoded_Nil decoded_Cons)

subsection \<open>Sending on a socket that is not open\<close>

lemma sendMessage_not_open:
  "\<not> current_open w \<Longrightarrow>
     sendMessage m w = console_add (Warn ''WebSocket is not connected'') w"
  by (auto simp: sendMessage_def current_open_def split: option.splits)

text \<open>
  Claim C10. When the socket the provider refers to is not open (or there is none),
  \<open>sendMessage\<close> returns the state it was given with one warning added to the
  console: the message is handed to no socket, and the buffer, the connected flag, the
  socket reference, the reconnect timer reference, every socket and every timer are as
  they were. The source has no \<^verbatim>\<open>throw\<close> on this path, and the model no failure value.
\<close>

theorem sendMessage_not_open_frame:
  assumes "\<not> current_open w"
  shows "sendMessage m w = w\<lparr>console := console w @ [Warn ''WebSocket is not connected'']\<rparr>
    \<and> messages (sendMessage m w) = messages w
    \<and> isConnected (sendMessage m w) = isConnected w
    \<and> wsRef (sendMessage m w) = wsRef w
    \<and> reconnectTimeoutRef (sendMessage m w) = reconnectTimeoutRef w
    \<and> sockets (sendMessage m w) = sockets w
    \<and> timers (sendMessage m w) = timers w"
  by (simp add: sendMessage_not_open [OF assms] console_add_def)

theorem sendMessage_not_open_frame_witness:
  "\<not> current_open (connect None (initial None None))
   \<and> sendMessage hello (connect None (initial None None)) =
       (connect None (initial None None))\<lparr>console := [Warn ''WebSocket is not connected'']\<rparr>
   \<and> sockets (sendMessage hello (connect None (initial None None))) =
       [\<lparr>url = ''ws://localhost:5000/api/ws'', readyState = CONNECTING,
         handler_agentId = None, sent = []\<rparr>]"
proof -
  have h: "\<not> current_open (connect None (initial None None))"
    by (simp add: provider_ops)
  show ?thesis
    using h sendMessage_not_open_frame [OF h, of hello]
    by (simp add: provider_ops)
qed

subsection \<open>The message buffer\<close>

text \<open>
  Claim C2, as stated, fails: the buffer has no capacity. In the specification's
  scenario (capacity 2) the frames "a", "b", "c" leave all three values in the buffer
  and not the last two; and no number bounds the length of the buffer over all
  sequences of frames that an open socket can receive.
\<close>

theorem buffer_capacity_counterexample:
  "map_option messages
     (run [Connect None, Open 0, Message 0 (Valid (JString ''a'')),
           Message 0 (Valid (JString ''b'')), Message 0 (Valid (JString ''c''))]
        (initial None None))
   = Some [JString ''a'', JString ''b'', JString ''c'']
   \<and> \<not> (\<exists>N. \<forall>ds. map_option (\<lambda>w. length (messages w) \<le> N)
                       (run (map (Message 0) ds) streaming) = Some True)"
proof
  show "map_option messages
     (run [Connect None, Open 0, Message 0 (Valid (JString ''a'')),
           Message 0 (Valid (JString ''b'')), Message 0 (Valid (JString ''c''))]
        (initial None None))
   = Some [JString ''a'', JString ''b'', JString ''c'']"
    by (simp add: provider_ops)
next
  show "\<not> (\<exists>N. \<forall>ds. map_option (\<lambda>w. length (messages w) \<le> N)
                       (run (map (Message 0) ds) streaming) = Some True)"
  proof
    assume "\<exists>N. \<forall>ds. map_option (\<lambda>w. length (messages w) \<le> N)
                       (run (map (Message 0) ds) streaming) = Some True"
    then obtain N where
      b: "map_option (\<lambda>w. length (messages w) \<le> N)
            (run (map (Message 0) (replicate N (Valid JNull))) streaming) = Some True"
      by blast
    have o: "0 < length (sockets streaming)" "readyState (sockets streaming ! 0) = OPEN"
      by (simp_all add: streaming_def)
    have "map_option messages (run (map (Message 0) (replicate N (Valid JNull))) streaming)
          = Some (messages streaming @ replicate N JNull)"
      using run_frames_open [OF o, of "replicate N (Valid JNull)"]
      by (simp add: decoded_replicate)
    with b have "length (messages streaming @ replicate N JNull) \<le> N"
      by (auto simp: map_option_case split: option.splits)
    then show False
      by (simp add: streaming_def)
  qed
qed

text \<open>
  Claim C2, amended. Whatever happens to a provider (calls of its operations, socket
  events, timers, in any order the browser can produce), its buffer afterwards is the
  buffer before followed by the decoded values of all frames received, in order of
  arrival: nothing is evicted, and the buffer grows by one entry for each frame that
  decodes.
\<close>

theorem buffer_keeps_every_frame:
  assumes "run es w = Some w'"
  shows "messages w' = messages w @ decoded (frames es)
    \<and> take (length (messages w)) (messages w') = messages w
    \<and> length (messages w') = length (messages w) + length (decoded (frames es))"
  by (simp add: run_messages [OF assms])

theorem buffer_keeps_every_frame_witness:
  "run [Connect None, Open 0, Message 0 (Valid (JString ''a'')),
        Message 0 (Valid (JString ''b'')), Message 0 (Valid (JString ''c''))]
     (initial None None)
   = Some \<lparr>isConnected = True,
           messages = [JString ''a'', JString ''b'', JString ''c''],
           wsRef = Some 0, reconnectTimeoutRef = None,
           sockets = [\<lparr>url = ''ws://localhost:5000/api/ws'', readyState = OPEN,
                       handler_agentId = None, sent = []\<rparr>],
           timers = [], console = [Log ''WebSocket connected''],
           REACT_APP_WS_URL = None, access_token = None\<rparr>
   \<and> decoded (frames [Connect None, Open 0, Message 0 (Valid (JString ''a'')),
        Message 0 (Valid (JString ''b'')), Message 0 (Valid (JString ''c''))])
     = [JString ''a'', JString ''b'', JString ''c'']"
proof -
  have r: "run [Connect None, Open 0, Message 0 (Valid (JString ''a'')),
        Message 0 (Valid (JString ''b'')), Message 0 (Valid (JString ''c''))]
     (initial None None)
   = Some \<lparr>isConnected = True,
           messages = [JString ''a'', JString ''b'', JString ''c''],
           wsRef = Some 0, reconnectTimeoutRef = None,
           sockets = [\<lparr>url = ''ws://localhost:5000/api/ws'', readyState = OPEN,
                       handler_agentId = None, sent = []\<rparr>],
           timers = [], console = [Log ''WebSocket connected''],
           REACT_APP_WS_URL = None, access_token = None\<rparr>"
    by (simp add: provider_ops)
  show ?thesis
    using r buffer_keeps_every_frame [OF r]
    by (simp add: initial_def)
qed

subsection \<open>Frames in, entries out\<close>

text \<open>
  Claim C7, as stated, fails: the provider assigns no sequence number. In the
  specification's scenario (scope "agent-42", two "log" frames with data "a" and "b")
  the two entries a consumer sees are the decoded frames themselves, and neither has a
  \<^verbatim>\<open>sequence\<close> property, where the claim has 1 and 2.
\<close>

theorem sequence_counterexample:
  "map_option (map (property ''sequence'') \<circ> messages)
     (run [Connect (Some ''agent-42''), Open 0,
           Message 0 (Valid (JObject [(''type'', JString ''log''), (''data'', JString ''a'')])),
           Message 0 (Valid (JObject [(''type'', JString ''log''), (''data'', JString ''b'')]))]
        (initial None None))
   = Some [None, None]
   \<and> map_option messages
     (run [Connect (Some ''agent-42''), Open 0,
           Message 0 (Valid (JObject [(''type'', JString ''log''), (''data'', JString ''a'')])),
           Message 0 (Valid (JObject [(''type'', JString ''log''), (''data'', JString ''b'')]))]
        (initial None None))
   = Some [JObject [(''type'', JString ''log''), (''data'', JString ''a'')],
           JObject [(''type'', JString ''log''), (''data'', JString ''b'')]]"
  by (simp add: provider_ops)

text \<open>
  Claim C7, amended. For every sequence of N frames delivered on an open socket, the
  buffer (which is all that a consumer observes) is afterwards the buffer before
  followed by the values the frames decode to, unchanged and in order of arrival, and
  their number is N minus the number of decode failures. The position in the buffer is
  the only order there is. A run of events without a frame, such as a closure followed
  by a reconnection, leaves the buffer as it was.
\<close>

theorem frames_counted_in_order:
  "(i < length (sockets w) \<and> readyState (sockets w ! i) = OPEN \<longrightarrow>
      map_option messages (run (map (Message i) ds) w) = Some (messages w @ decoded ds)
      \<and> length (decoded ds) = length ds - decode_failures ds)
   \<and> (run es w = Some w' \<and> frames es = [] \<longrightarrow> messages w' = messages w)"
proof (intro conjI impI)
  assume a: "i < length (sockets w) \<and> readyState (sockets w ! i) = OPEN"
  then show "map_option messages (run (map (Message i) ds) w) = Some (messages w @ decoded ds)"
    by (simp add: run_frames_open)
  show "length (decoded ds) = length ds - decode_failures ds"
    by (rule length_decoded)
next
  assume "run es w = Some w' \<and> frames es = []"
  then show "messages w' = messages w"
    using run_messages [of es w w'] by (simp add: decoded_Nil)
qed

lemma streaming_reachable:
  "run [Connect None, Open 0, Message 0 (Valid (JString ''a''))] (initial None None)
   = Some streaming"
  by (simp add: provider_ops streaming_def)

theorem frames_counted_in_order_witness:
  "0 < length (sockets streaming) \<and> readyState (sockets streaming ! 0) = OPEN
   \<and> map_option messages
       (run (map (Message 0) [Valid (JString ''b''), Invalid ''{'', Valid (JString ''c'')])
          streaming)
     = Some [JString ''a'', JString ''b'', JString ''c'']
   \<and> length (decoded [Valid (JString ''b''), Invalid ''{'', Valid (JString ''c'')]) = 2
   \<and> decode_failures [Valid (JString ''b''), Invalid ''{'', Valid (JString ''c'')] = 1
   \<and> map_option messages (run [Close 0, Timeout 0, Open 1] streaming) = Some [JString ''a'']
   \<and> frames [Close 0, Timeout 0, Open 1] = []"
proof -
  have h: "0 < length (sockets streaming) \<and> readyState (sockets streaming ! 0) = OPEN"
    by (simp add: streaming_def)
  obtain w' where r: "run [Close 0, Timeout 0, Open 1] streaming = Some w'"
    by (simp add: provider_ops streaming_def)
  have f: "frames [Close 0, Timeout 0, Open 1] = []"
    by simp
  have d: "decoded [Valid (JString ''b''), Invalid ''{'', Valid (JString ''c'')]
           = [JString ''b'', JString ''c'']"
    by (simp add: decoded_Cons decoded_Nil)
  have m: "messages streaming = [JString ''a'']"
    by (simp add: streaming_def)
  show ?thesis
    using h r f d m
      frames_counted_in_order [of 0 streaming
        "[Valid (JString ''b''), Invalid ''{'', Valid (JString ''c'')]"
        "[Close 0, Timeout 0, Open 1]" w']
    by (simp add: decode_failures_def)
qed

subsection \<open>A frame that does not decode\<close>

text \<open>
  Claim C8, as stated, fails in its last part: there are no subscribers, and what the
  consumers are given (the connected flag and the buffer) is the same after a frame
  that fails to decode as before it. The failure goes to the console only.
\<close>

theorem decode_error_counterexample:
  "map_option context_value
     (run [Connect None, Open 0, Message 0 (Invalid ''{'')] (initial None None))
   = map_option context_value (run [Connect None, Open 0] (initial None None))
   \<and> map_option console
     (run [Connect None, Open 0, Message 0 (Invalid ''{'')] (initial None None))
   = Some [Log ''WebSocket connected'', Error ''Failed to parse WebSocket message:'']"
  by (simp add: provider_ops context_value_def)

text \<open>
  Claim C8, amended. A frame that fails to decode, arriving on an open socket, is
  dropped: the buffer, the connected flag, the socket reference, every socket (so its
  ready state too), the timer reference and every timer are unchanged, and so is all
  that consumers see. The handler catches the failure and writes one error to the
  console; no event reaches a consumer.
\<close>

theorem undecodable_frame_dropped:
  assumes "i < length (sockets w)" and "readyState (sockets w ! i) = OPEN"
    and "JSON_parse d = None"
  shows "step (Message i d) w
           = Some (w\<lparr>console := console w @ [Error ''Failed to parse WebSocket message:'']\<rparr>)
    \<and> map_option messages (step (Message i d) w) = Some (messages w)
    \<and> map_option isConnected (step (Message i d) w) = Some (isConnected w)
    \<and> map_option wsRef (step (Message i d) w) = Some (wsRef w)
    \<and> map_option sockets (step (Message i d) w) = Some (sockets w)
    \<and> map_option reconnectTimeoutRef (step (Message i d) w) = Some (reconnectTimeoutRef w)
    \<and> map_option timers (step (Message i d) w) = Some (timers w)
    \<and> map_option context_value (step (Message i d) w) = Some (context_value w)"
  using assms by (simp add: onmessage_def console_add_def context_value_def)

theorem undecodable_frame_dropped_witness:
  "0 < length (sockets streaming) \<and> readyState (sockets streaming ! 0) = OPEN
   \<and> JSON_parse (Invalid ''{'') = None
   \<and> step (Message 0 (Invalid ''{'')) streaming
      = Some (streaming\<lparr>console := [Log ''WebSocket connected'',
                                       Error ''Failed to parse WebSocket message:'']\<rparr>)
   \<and> map_option context_value (step (Message 0 (Invalid ''{'')) streaming)
      = Some (True, [JString ''a''])"
proof -
  have h1: "0 < length (sockets streaming)"
    and h2: "readyState (sockets streaming ! 0) = OPEN"
    and h3: "JSON_parse (Invalid ''{'') = None"
    by (simp_all add: streaming_def)
  show ?thesis
    using h1 h2 h3 undecodable_frame_dropped [OF h1 h2 h3]
    by (simp add: streaming_def context_value_def)
qed

subsection \<open>The send path\<close>

text \<open>
  Claim C3, as stated, fails: there is no outbound queue. A message sent while the
  socket is still connecting has not been handed to the socket after it opens, and a
  send on a provider that was never connected returns normally, with a warning on the
  console.
\<close>

theorem send_queue_counterexample:
  "map_option (map sent \<circ> sockets)
     (run [Connect None, SendMessage hello, Open 0] (initial None None)) = Some [[]]
   \<and> run [SendMessage hello] (initial None None)
     = Some ((initial None None)\<lparr>console := [Warn ''WebSocket is not connected'']\<rparr>)"
  by (simp add: provider_ops)

text \<open>Only \<open>sendMessage\<close> hands frames to a socket.\<close>

lemma sent_connect:
  "map sent (sockets (connect a w))
   = map sent (sockets w) @ replicate (length (sockets (connect a w)) - length (sockets w)) []"
  by (simp add: connect_def Let_def)

lemma map_sent_update_readyState:
  "map sent (xs[i := (xs ! i)\<lparr>readyState := r\<rparr>]) = map sent xs"
proof (cases "i < length xs")
  case True
  then have "(map sent xs)[i := sent (xs ! i)] = map sent xs"
    by (simp add: list_update_same_conv)
  then show ?thesis by (simp add: map_update)
next
  case False
  then have "length xs \<le> i" by simp
  then show ?thesis by (simp only: list_update_beyond)
qed

lemma sockets_onopen: "sockets (onopen w) = sockets w"
  by (simp add: onopen_def Let_def console_add_def clearTimeout_def split: option.splits)

lemma sockets_onclose: "sockets (onclose a w) = sockets w"
  by (simp add: onclose_def Let_def console_add_def setTimeout_def split: option.splits)

lemma sockets_onerror: "sockets (onerror w) = sockets w"
  by (simp add: onerror_def console_add_def)

lemma sockets_onmessage: "sockets (onmessage d w) = sockets w"
  by (simp add: onmessage_def console_add_def split: option.splits)

lemma sent_set_readyState: "map sent (sockets (set_readyState i r w)) = map sent (sockets w)"
  by (simp add: set_readyState_def map_sent_update_readyState)

lemma length_set_readyState: "length (sockets (set_readyState i r w)) = length (sockets w)"
  by (simp add: set_readyState_def)

lemma sent_disconnect: "map sent (sockets (disconnect w)) = map sent (sockets w)"
  by (simp add: disconnect_def Let_def clearTimeout_def WebSocket_close_def
      map_sent_update_readyState split: option.splits)

lemma length_disconnect: "length (sockets (disconnect w)) = length (sockets w)"
  by (simp add: disconnect_def Let_def clearTimeout_def WebSocket_close_def
      split: option.splits)

lemma step_sent:
  assumes "step e w = Some w'" and "\<forall>m. e \<noteq> SendMessage m"
  shows "map sent (sockets w')
         = map sent (sockets w) @ replicate (length (sockets w') - length (sockets w)) []"
proof (cases e)
  case (Connect a)
  with assms show ?thesis using sent_connect [of a w] by auto
next
  case Disconnect
  with assms show ?thesis by (auto simp: sent_disconnect length_disconnect)
next
  case (SendMessage m)
  with assms show ?thesis by simp
next
  case (Open i)
  with assms show ?thesis
    by (auto simp: sockets_onopen sent_set_readyState length_set_readyState split: if_splits)
next
  case (Message i d)
  with assms show ?thesis by (auto simp: sockets_onmessage split: if_splits)
next
  case (Close i)
  with assms show ?thesis
    by (auto simp: sockets_onclose sent_set_readyState length_set_readyState split: if_splits)
next
  case (Fail i)
  with assms show ?thesis
    by (auto simp: sockets_onclose sockets_onerror sent_set_readyState length_set_readyState
        split: if_splits)
next
  case (Timeout t)
  with assms show ?thesis
    using sent_connect [of "callback_agentId (timers w ! t)"
        "w\<lparr>timers := (timers w)[t := (timers w ! t)\<lparr>pending := False\<rparr>]\<rparr>"]
    by (auto split: if_splits)
qed

text \<open>
  Claim C3, amended. \<open>sendMessage\<close> hands the serialised message to the current
  socket at once when that socket is open. In every other state, also when no connect
  was ever made, the message is discarded with a warning on the console and the call
  returns normally. Nothing is queued: no other operation or event (an open least of
  all) hands a frame to any socket, and a new socket starts with none.
\<close>

theorem send_now_or_discard:
  "(current_open w \<longrightarrow>
      (\<exists>i. wsRef w = Some i \<and> i < length (sockets w)
         \<and> sendMessage m w = WebSocket_send i (JSON_stringify m) w
         \<and> sent (sockets (sendMessage m w) ! i) = sent (sockets w ! i) @ [JSON_stringify m]))
   \<and> (\<not> current_open w \<longrightarrow>
      sendMessage m w = w\<lparr>console := console w @ [Warn ''WebSocket is not connected'']\<rparr>)
   \<and> (step e w = Some w' \<and> (\<forall>m. e \<noteq> SendMessage m) \<longrightarrow>
      map sent (sockets w')
      = map sent (sockets w) @ replicate (length (sockets w') - length (sockets w)) [])"
proof (intro conjI impI)
  assume "current_open w"
  then show "\<exists>i. wsRef w = Some i \<and> i < length (sockets w)
         \<and> sendMessage m w = WebSocket_send i (JSON_stringify m) w
         \<and> sent (sockets (sendMessage m w) ! i) = sent (sockets w ! i) @ [JSON_stringify m]"
    by (auto simp: current_open_def sendMessage_def WebSocket_send_def split: option.splits)
next
  assume "\<not> current_open w"
  then show "sendMessage m w = w\<lparr>console := console w @ [Warn ''WebSocket is not connected'']\<rparr>"
    by (simp add: sendMessage_not_open console_add_def)
next
  assume "step e w = Some w' \<and> (\<forall>m. e \<noteq> SendMessage m)"
  then show "map sent (sockets w')
      = map sent (sockets w) @ replicate (length (sockets w') - length (sockets w)) []"
    using step_sent [of e w w'] by blast
qed

theorem send_now_or_discard_witness:
  "current_open streaming
   \<and> map sent (sockets (sendMessage hello streaming)) = [[JSON_stringify hello]]
   \<and> \<not> current_open (connect None (initial None None))
   \<and> sendMessage hello (connect None (initial None None))
     = (connect None (initial None None))\<lparr>console := [Warn ''WebSocket is not connected'']\<rparr>
   \<and> map_option (map sent \<circ> sockets)
       (step (Open 0) (sendMessage hello (connect None (initial None None)))) = Some [[]]"
proof -
  have h1: "current_open streaming"
    by (simp add: streaming_def current_open_def)
  have h2: "\<not> current_open (connect None (initial None None))"
    by (simp add: provider_ops)
  obtain w' where h3: "step (Open 0) (sendMessage hello (connect None (initial None None))) = Some w'"
    by (simp add: provider_ops)
  have h4: "\<forall>m. Open 0 \<noteq> SendMessage m"
    by simp
  have l: "length (sockets w') = 1"
    using h3 by (auto simp: provider_ops)
  from h1 send_now_or_discard [of streaming hello "Open 0" w']
  have a: "map sent (sockets (sendMessage hello streaming)) = [[JSON_stringify hello]]"
    by (auto simp: streaming_def WebSocket_send_def)
  from h2 send_now_or_discard [of "connect None (initial None None)" hello "Open 0" w']
  have b: "sendMessage hello (connect None (initial None None))
     = (connect None (initial None None))\<lparr>console := [Warn ''WebSocket is not connected'']\<rparr>"
    by (simp add: provider_ops)
  from h3 h4 l
    send_now_or_discard [of "sendMessage hello (connect None (initial None None))" hello "Open 0" w']
  have c: "map sent (sockets w') = [[]]"
    by (simp add: provider_ops)
  show ?thesis
    using h1 h2 h3 a b c by simp
qed

subsection \<open>connect and the session provider\<close>

text \<open>
  Claim C5, as stated, fails: with no credential stored, \<open>connect\<close> constructs the
  socket all the same.
\<close>

theorem unauthenticated_counterexample:
  "access_token (initial None None) = None
   \<and> connect None (initial None None)
     = (initial None None)
         \<lparr>wsRef := Some 0,
          sockets := [\<lparr>url = ''ws://localhost:5000/api/ws'', readyState = CONNECTING,
                       handler_agentId = None, sent = []\<rparr>]\<rparr>"
  by (simp add: provider_ops)

text \<open>The state a call of \<open>connect\<close> returns is the one \<open>connect\<close> gives.\<close>

lemma connect_result_returns:
  "connect_result accepts agentId w = Inr w' \<Longrightarrow> w' = connect agentId w"
  by (auto simp: connect_result_def connect_def Let_def split: if_splits)

text \<open>
  Claim C5, amended. \<open>connect\<close> does not consult the session provider: it neither
  reads nor changes the stored credential, and its outcome, the constructor's error
  included, is the same with any credential or with none. With no credential at all it
  opens the transport at the address derived from the agent identifier alone, whenever
  the current socket is not open and the WebSocket constructor accepts that address.
\<close>

theorem connect_ignores_credential:
  "connect agentId (w\<lparr>access_token := token\<rparr>) = (connect agentId w)\<lparr>access_token := token\<rparr>
   \<and> connect_result accepts agentId (w\<lparr>access_token := token\<rparr>)
     = (case connect_result accepts agentId w of
          Inl e \<Rightarrow> Inl e
        | Inr w' \<Rightarrow> Inr (w'\<lparr>access_token := token\<rparr>))
   \<and> (\<not> current_open w \<and> accepts (wsUrl (REACT_APP_WS_URL w) agentId) \<longrightarrow>
        connect_result accepts agentId (w\<lparr>access_token := None\<rparr>)
        = Inr (w\<lparr>access_token := None,
                 sockets := sockets w @ [\<lparr>url = wsUrl (REACT_APP_WS_URL w) agentId,
                                          readyState = CONNECTING,
                                          handler_agentId = agentId, sent = []\<rparr>],
                 wsRef := Some (length (sockets w))\<rparr>))"
  by (auto simp: connect_def connect_result_def current_open_def Let_def split: option.splits)

theorem connect_ignores_credential_witness:
  "\<not> current_open (initial None (Some ''secret''))
   \<and> without_fragment (wsUrl (REACT_APP_WS_URL (initial None (Some ''secret''))) (Some ''7''))
   \<and> connect_result without_fragment (Some ''7'')
        ((initial None (Some ''secret''))\<lparr>access_token := None\<rparr>)
     = Inr \<lparr>isConnected = False, messages = [], wsRef = Some 0, reconnectTimeoutRef = None,
            sockets = [\<lparr>url = ''ws://localhost:5000/api/agents/7/ws'', readyState = CONNECTING,
                        handler_agentId = Some ''7'', sent = []\<rparr>],
            timers = [], console = [], REACT_APP_WS_URL = None, access_token = None\<rparr>
   \<and> connect_result without_fragment (Some ''7'') (initial None (Some ''secret''))
     = Inr \<lparr>isConnected = False, messages = [], wsRef = Some 0, reconnectTimeoutRef = None,
            sockets = [\<lparr>url = ''ws://localhost:5000/api/agents/7/ws'', readyState = CONNECTING,
                        handler_agentId = Some ''7'', sent = []\<rparr>],
            timers = [], console = [], REACT_APP_WS_URL = None,
            access_token = Some ''secret''\<rparr>"
proof -
  have h: "\<not> current_open (initial None (Some ''secret''))
     \<and> without_fragment (wsUrl (REACT_APP_WS_URL (initial None (Some ''secret''))) (Some ''7''))"
    by (simp add: provider_ops without_fragment_def)
  show ?thesis
    using h connect_ignores_credential
      [where agentId = "Some ''7''" and w = "initial None (Some ''secret'')" and token = None
         and accepts = without_fragment]
    by (simp add: provider_ops connect_result_def without_fragment_def)
qed

subsection \<open>Scopes\<close>

text \<open>
  Claim C6, as stated, fails: the provider has one buffer, one flag and one timer
  reference, whatever the scope. Agent "a" connects, receives "x" and loses its
  transport, which schedules its reconnection; agent "b" then connects and receives
  "y". The one buffer holds both frames, and the opening of the socket of "b" has
  cancelled the reconnection of "a".
\<close>

theorem shared_buffer_counterexample:
  "run [Connect (Some ''a''), Open 0, Message 0 (Valid (JString ''x'')), Close 0,
        Connect (Some ''b''), Open 1, Message 1 (Valid (JString ''y''))]
     (initial None None)
   = Some \<lparr>isConnected = True,
           messages = [JString ''x'', JString ''y''],
           wsRef = Some 1, reconnectTimeoutRef = None,
           sockets = [\<lparr>url = ''ws://localhost:5000/api/agents/a/ws'', readyState = CLOSED,
                       handler_agentId = Some ''a'', sent = []\<rparr>,
                      \<lparr>url = ''ws://localhost:5000/api/agents/b/ws'', readyState = OPEN,
                       handler_agentId = Some ''b'', sent = []\<rparr>],
           timers = [\<lparr>callback_agentId = Some ''a'', pending = False\<rparr>],
           console = [Log ''WebSocket connected'', Log ''WebSocket disconnected:'',
                      Log ''WebSocket connected''],
           REACT_APP_WS_URL = None, access_token = None\<rparr>"
  by (simp add: provider_ops)

text \<open>The handlers set the one flag, whichever socket they are registered on.\<close>

lemma isConnected_onclose: "isConnected (onclose a w) = False"
  by (simp add: onclose_def Let_def console_add_def setTimeout_def split: option.splits)

lemma isConnected_onopen: "isConnected (onopen w) = True"
  by (simp add: onopen_def Let_def console_add_def clearTimeout_def split: option.splits)

lemma connect_open_noop: "current_open w \<Longrightarrow> connect agentId w = w"
  by (simp add: connect_def)

text \<open>
  Claim C6, amended. The provider keeps one socket reference, one connected flag and
  one buffer for all scopes. While the current socket is open, whatever scope it was
  opened for, \<open>connect\<close> for any scope does nothing. A frame arriving on any open socket
  is appended to the one buffer; the opening of any socket sets the one flag, and the
  closure or failure of any socket clears it, whether or not the socket is the current
  one and whatever its scope.
\<close>

theorem one_state_for_all_scopes:
  "(current_open w \<longrightarrow> connect agentId w = w)
   \<and> (i < length (sockets w) \<and> readyState (sockets w ! i) = OPEN \<longrightarrow>
      map_option messages (step (Message i d) w) = Some (messages w @ decoded [d]))
   \<and> (i < length (sockets w) \<and> readyState (sockets w ! i) = CONNECTING \<longrightarrow>
      map_option isConnected (step (Open i) w) = Some True)
   \<and> (i < length (sockets w) \<and> readyState (sockets w ! i) \<noteq> CLOSED \<longrightarrow>
      map_option isConnected (step (Close i) w) = Some False
      \<and> map_option isConnected (step (Fail i) w) = Some False)"
  by (simp add: messages_onmessage isConnected_onclose isConnected_onopen connect_open_noop)

theorem one_state_for_all_scopes_witness:
  "current_open streaming \<and> connect (Some ''b'') streaming = streaming
   \<and> 0 < length (sockets streaming) \<and> readyState (sockets streaming ! 0) = OPEN
   \<and> readyState (sockets streaming ! 0) \<noteq> CLOSED
   \<and> map_option messages (step (Message 0 (Valid (JString ''y''))) streaming)
     = Some [JString ''a'', JString ''y'']
   \<and> map_option isConnected (step (Close 0) streaming) = Some False
   \<and> map_option isConnected (step (Fail 0) streaming) = Some False
   \<and> 0 < length (sockets (connect (Some ''b'') (initial None None)))
   \<and> readyState (sockets (connect (Some ''b'') (initial None None)) ! 0) = CONNECTING
   \<and> map_option isConnected (step (Open 0) (connect (Some ''b'') (initial None None)))
     = Some True"
proof -
  have h1: "current_open streaming"
    by (simp add: streaming_def current_open_def)
  have h2: "0 < length (sockets streaming) \<and> readyState (sockets streaming ! 0) = OPEN"
    by (simp add: streaming_def)
  have h3: "0 < length (sockets (connect (Some ''b'') (initial None None)))
    \<and> readyState (sockets (connect (Some ''b'') (initial None None)) ! 0) = CONNECTING"
    by (simp add: provider_ops)
  have m: "messages streaming @ decoded [Valid (JString ''y'')] = [JString ''a'', JString ''y'']"
    by (simp add: streaming_def decoded_Cons decoded_Nil)
  note a = one_state_for_all_scopes
      [where w = streaming and agentId = "Some ''b''" and i = 0 and d = "Valid (JString ''y'')"]
  note b = one_state_for_all_scopes
      [where w = "connect (Some ''b'') (initial None None)" and i = 0]
  from a h1 have c1: "connect (Some ''b'') streaming = streaming"
    by blast
  from a h2 m have c2: "map_option messages (step (Message 0 (Valid (JString ''y''))) streaming)
     = Some [JString ''a'', JString ''y'']"
    by (simp del: step.simps)
  from a h2 have c3: "map_option isConnected (step (Close 0) streaming) = Some False
     \<and> map_option isConnected (step (Fail 0) streaming) = Some False"
    by (simp del: step.simps)
  from b h3 have c4:
    "map_option isConnected (step (Open 0) (connect (Some ''b'') (initial None None))) = Some True"
    by (simp del: step.simps)
  show ?thesis
    using h1 h2 h3 c1 c2 c3 c4 by simp
qed

subsection \<open>The endpoint\<close>

text \<open>
  Claim C9, as stated, fails for the empty agent identifier: the test of the
  identifier is a test of truthiness, so the connect for agent \<^verbatim>\<open>""\<close> goes to the
  global path and not to the per-agent path with an empty identifier.
\<close>

theorem empty_agent_counterexample:
  "url (last (sockets (connect (Some '''') (initial None None)))) = ''ws://localhost:5000/api/ws''
   \<and> url (last (sockets (connect (Some '''') (initial None None))))
     \<noteq> ''ws://localhost:5000/api/agents//ws''"
  by (simp add: provider_ops)

text \<open>
  Claim C9, amended. The endpoint is a function of the agent identifier and the
  configured base address. A connect that finds the current socket not open and whose
  address the WebSocket constructor accepts constructs exactly one socket and makes it
  the current one: for a non-empty agent identifier at the base address followed by
  \<^verbatim>\<open>/api/agents/<identifier>/ws\<close>, and for no identifier or the empty one at the base
  address followed by \<^verbatim>\<open>/api/ws\<close>. When the constructor rejects the address,
  \<open>connect\<close> throws its \<^verbatim>\<open>SyntaxError\<close> and constructs nothing. The base address is
  the environment variable when it is set and not empty, and \<^verbatim>\<open>ws://localhost:5000\<close>
  otherwise.
\<close>

theorem endpoint_of_connect:
  assumes "\<not> current_open w"
  shows "(a \<noteq> '''' \<and> accepts (base_address (REACT_APP_WS_URL w) @ ''/api/agents/'' @ a @ ''/ws'')
      \<longrightarrow> connect_result accepts (Some a) w
        = Inr (w\<lparr>sockets := sockets w @
                   [\<lparr>url = base_address (REACT_APP_WS_URL w) @ ''/api/agents/'' @ a @ ''/ws'',
                     readyState = CONNECTING, handler_agentId = Some a, sent = []\<rparr>],
                 wsRef := Some (length (sockets w))\<rparr>))
   \<and> (accepts (base_address (REACT_APP_WS_URL w) @ ''/api/ws'')
      \<longrightarrow> connect_result accepts None w
        = Inr (w\<lparr>sockets := sockets w @
                   [\<lparr>url = base_address (REACT_APP_WS_URL w) @ ''/api/ws'',
                     readyState = CONNECTING, handler_agentId = None, sent = []\<rparr>],
                 wsRef := Some (length (sockets w))\<rparr>)
        \<and> connect_result accepts (Some '''') w
        = Inr (w\<lparr>sockets := sockets w @
                   [\<lparr>url = base_address (REACT_APP_WS_URL w) @ ''/api/ws'',
                     readyState = CONNECTING, handler_agentId = Some '''', sent = []\<rparr>],
                 wsRef := Some (length (sockets w))\<rparr>))
   \<and> (\<not> accepts (wsUrl (REACT_APP_WS_URL w) agentId)
      \<longrightarrow> connect_result accepts agentId w = Inl SyntaxError)
   \<and> (REACT_APP_WS_URL w = None \<or> REACT_APP_WS_URL w = Some ''''
        \<longrightarrow> base_address (REACT_APP_WS_URL w) = ''ws://localhost:5000'')
   \<and> (\<forall>u. REACT_APP_WS_URL w = Some u \<and> u \<noteq> '''' \<longrightarrow> base_address (REACT_APP_WS_URL w) = u)"
  using assms by (auto simp: connect_result_def wsUrl_def base_address_def Let_def)

theorem endpoint_of_connect_witness:
  "\<not> current_open (initial (Some ''wss://agents.example'') None)
   \<and> ''42'' \<noteq> ''''
   \<and> without_fragment (''wss://agents.example'' @ ''/api/agents/'' @ ''42'' @ ''/ws'')
   \<and> without_fragment (''wss://agents.example'' @ ''/api/ws'')
   \<and> \<not> without_fragment
         (wsUrl (REACT_APP_WS_URL (initial (Some ''wss://agents.example'') None)) (Some ''a#b''))
   \<and> REACT_APP_WS_URL (initial (Some ''wss://agents.example'') None)
       = Some ''wss://agents.example''
   \<and> connect_result without_fragment (Some ''42'') (initial (Some ''wss://agents.example'') None)
     = Inr \<lparr>isConnected = False, messages = [], wsRef = Some 0, reconnectTimeoutRef = None,
            sockets = [\<lparr>url = ''wss://agents.example/api/agents/42/ws'',
                        readyState = CONNECTING, handler_agentId = Some ''42'', sent = []\<rparr>],
            timers = [], console = [], REACT_APP_WS_URL = Some ''wss://agents.example'',
            access_token = None\<rparr>
   \<and> connect_result without_fragment None (initial (Some ''wss://agents.example'') None)
     = Inr \<lparr>isConnected = False, messages = [], wsRef = Some 0, reconnectTimeoutRef = None,
            sockets = [\<lparr>url = ''wss://agents.example/api/ws'',
                        readyState = CONNECTING, handler_agentId = None, sent = []\<rparr>],
            timers = [], console = [], REACT_APP_WS_URL = Some ''wss://agents.example'',
            access_token = None\<rparr>
   \<and> connect_result without_fragment (Some ''a#b'')
       (initial (Some ''wss://agents.example'') None) = Inl SyntaxError
   \<and> REACT_APP_WS_URL (initial None None) = None
   \<and> \<not> current_open (initial None None)
   \<and> without_fragment (''ws://localhost:5000'' @ ''/api/agents/'' @ ''42'' @ ''/ws'')
   \<and> connect_result without_fragment (Some ''42'') (initial None None)
     = Inr \<lparr>isConnected = False, messages = [], wsRef = Some 0, reconnectTimeoutRef = None,
            sockets = [\<lparr>url = ''ws://localhost:5000/api/agents/42/ws'',
                        readyState = CONNECTING, handler_agentId = Some ''42'', sent = []\<rparr>],
            timers = [], console = [], REACT_APP_WS_URL = None, access_token = None\<rparr>"
proof -
  have h1: "\<not> current_open (initial (Some ''wss://agents.example'') None)"
    and h2: "\<not> current_open (initial None None)"
    by (simp_all add: initial_def current_open_def)
  have e1: "REACT_APP_WS_URL (initial (Some ''wss://agents.example'') None)
            = Some ''wss://agents.example''"
    and e2: "REACT_APP_WS_URL (initial None None) = None"
    by (simp_all add: initial_def)
  have a1: "without_fragment (''wss://agents.example'' @ ''/api/agents/'' @ ''42'' @ ''/ws'')"
    and a2: "without_fragment (''wss://agents.example'' @ ''/api/ws'')"
    and a3: "\<not> without_fragment
         (wsUrl (REACT_APP_WS_URL (initial (Some ''wss://agents.example'') None)) (Some ''a#b''))"
    and a4: "without_fragment (''ws://localhost:5000'' @ ''/api/agents/'' @ ''42'' @ ''/ws'')"
    by (simp_all add: without_fragment_def wsUrl_def base_address_def initial_def)
  note t1 = endpoint_of_connect
      [OF h1, where a = "''42''" and accepts = without_fragment and agentId = "Some ''a#b''"]
  note t2 = endpoint_of_connect
      [OF h2, where a = "''42''" and accepts = without_fragment and agentId = None]
  have b1: "base_address (REACT_APP_WS_URL (initial (Some ''wss://agents.example'') None))
            = ''wss://agents.example''"
    using t1 e1 by simp
  have b2: "base_address (REACT_APP_WS_URL (initial None None)) = ''ws://localhost:5000''"
    using t2 e2 by simp
  show ?thesis
    using h1 h2 e1 e2 a1 a2 a3 a4 t1 t2 b1 b2
    by (simp add: initial_def)
qed

subsection \<open>disconnect\<close>

text \<open>
  \<open>disconnect\<close> clears the timer it finds in the reference, at once: that timer can
  no longer fire.
\<close>

lemma disconnect_cancels_timer:
  assumes "reconnectTimeoutRef w = Some t"
  shows "reconnectTimeoutRef (disconnect w) = None \<and> step (Timeout t) (disconnect w) = None"
  using assms
  by (auto simp: disconnect_def Let_def clearTimeout_def WebSocket_close_def
      split: option.splits)

text \<open>
  Claim C1: after \<open>disconnect\<close> no reconnect timer fires and no event of the earlier
  connection reopens the connection or changes the state. The code does not keep to
  it. \<open>disconnect\<close> leaves the handlers on the socket it closes and empties the timer
  reference; when the close event of that socket arrives, \<open>onclose\<close> finds the
  reference empty and sets a new timer, which fires and calls \<open>connect\<close>. The three
  states below are the ones after the disconnect, after the late close event, and
  after the timer has fired and the new socket has opened: the consumer never called
  \<open>connect\<close> again, and the provider is connected.
\<close>

theorem reconnect_after_disconnect:
  "run [Connect None, Open 0, Disconnect] (initial None None)
   = Some \<lparr>isConnected = False, messages = [], wsRef = None, reconnectTimeoutRef = None,
           sockets = [\<lparr>url = ''ws://localhost:5000/api/ws'', readyState = CLOSING,
                       handler_agentId = None, sent = []\<rparr>],
           timers = [], console = [Log ''WebSocket connected''],
           REACT_APP_WS_URL = None, access_token = None\<rparr>
   \<and> run [Connect None, Open 0, Disconnect, Close 0] (initial None None)
   = Some \<lparr>isConnected = False, messages = [], wsRef = None, reconnectTimeoutRef = Some 0,
           sockets = [\<lparr>url = ''ws://localhost:5000/api/ws'', readyState = CLOSED,
                       handler_agentId = None, sent = []\<rparr>],
           timers = [\<lparr>callback_agentId = None, pending = True\<rparr>],
           console = [Log ''WebSocket connected'', Log ''WebSocket disconnected:''],
           REACT_APP_WS_URL = None, access_token = None\<rparr>
   \<and> run [Connect None, Open 0, Disconnect, Close 0, Timeout 0, Open 1] (initial None None)
   = Some \<lparr>isConnected = True, messages = [], wsRef = Some 1, reconnectTimeoutRef = None,
           sockets = [\<lparr>url = ''ws://localhost:5000/api/ws'', readyState = CLOSED,
                       handler_agentId = None, sent = []\<rparr>,
                      \<lparr>url = ''ws://localhost:5000/api/ws'', readyState = OPEN,
                       handler_agentId = None, sent = []\<rparr>],
           timers = [\<lparr>callback_agentId = None, pending = False\<rparr>],
           console = [Log ''WebSocket connected'', Log ''WebSocket disconnected:'',
                      Log ''WebSocket connected''],
           REACT_APP_WS_URL = None, access_token = None\<rparr>"
  by (simp add: provider_ops)

subsection \<open>connect, called twice\<close>

text \<open>
  When the current socket is not open, \<open>connect\<close> constructs exactly one socket, in
  state \<open>CONNECTING\<close>, at the address derived from the agent identifier, and makes it
  the current one; when it is open, \<open>connect\<close> does nothing (\<open>connect_open_noop\<close>).
\<close>

lemma connect_opens_one:
  assumes "\<not> current_open w"
  shows "connect agentId w
         = w\<lparr>sockets := sockets w @ [\<lparr>url = wsUrl (REACT_APP_WS_URL w) agentId,
                                       readyState = CONNECTING,
                                       handler_agentId = agentId, sent = []\<rparr>],
             wsRef := Some (length (sockets w))\<rparr>"
  using assms by (simp add: connect_def)

text \<open>
  Claim C4: \<open>connect\<close> is idempotent, a no-op when the connection is open or
  connecting. The guard of the code tests for \<open>OPEN\<close> only, so a second call while
  the first socket is still connecting constructs a second socket and moves the
  reference to it. The first socket keeps its handlers: once both are open, a frame
  that the server sends on each arrives in the buffer twice.
\<close>

theorem connect_while_connecting:
  "run [Connect None] (initial None None)
   = Some \<lparr>isConnected = False, messages = [], wsRef = Some 0, reconnectTimeoutRef = None,
           sockets = [\<lparr>url = ''ws://localhost:5000/api/ws'', readyState = CONNECTING,
                       handler_agentId = None, sent = []\<rparr>],
           timers = [], console = [],
           REACT_APP_WS_URL = None, access_token = None\<rparr>
   \<and> run [Connect None, Connect None] (initial None None)
   = Some \<lparr>isConnected = False, messages = [], wsRef = Some 1, reconnectTimeoutRef = None,
           sockets = [\<lparr>url = ''ws://localhost:5000/api/ws'', readyState = CONNECTING,
                       handler_agentId = None, sent = []\<rparr>,
                      \<lparr>url = ''ws://localhost:5000/api/ws'', readyState = CONNECTING,
                       handler_agentId = None, sent = []\<rparr>],
           timers = [], console = [],
           REACT_APP_WS_URL = None, access_token = None\<rparr>
   \<and> map_option messages
       (run [Connect None, Connect None, Open 0, Open 1,
             Message 0 (Valid (JString ''x'')), Message 1 (Valid (JString ''x''))]
          (initial None None))
     = Some [JString ''x'', JString ''x'']"
  by (simp add: provider_ops)

end
